theory Spec2Isabelle
  imports Complex_Main
begin

section \<open>Circle manager of rc-config: a shallow embedding of \<open>src/control/circle_mgr.cxx\<close>\<close>

text \<open>
  The file embeds the constructor, \<open>bind\<close> and \<open>update\<close> of \<open>AuraCircleMgr\<close>.

  Numbers: a C++ \<open>double\<close> (and the \<open>float\<close> of \<open>setFloatValue\<close>) is a \<^typ>\<open>real\<close>.
  The arithmetic is therefore exact: rounding, overflow, infinities and NaN are outside
  this model, and \<open>sin\<close>, \<open>atan\<close> are the mathematical functions.

  The only division whose divisor \<open>update\<close> does not guard is the one by the L1 period
  (line 231); \<open>bind\<close> leaves a period of at least 0.1, \<open>update\<close> reads whatever the
  blackboard holds. For a period of 0 the source's \<open>omegaA\<close> is infinite, its track term
  is infinite or NaN, and the bank it publishes is NaN or a bank limit; none of this is a
  real number, and the values this model has there for the track term, the total
  acceleration and the bank are not the source's. The statements about the value of the
  bank (C1 and C3) are therefore made for a period that is not 0.
\<close>

subsection \<open>The property tree (blackboard)\<close>

type_synonym path = string

datatype leaf = Number real | Text string

text \<open>
  The collaborators of the circle manager that are not part of the sources: the geodesic
  helper \<open>SGWayPoint::CourseAndDistance\<close> (target, then the position it is seen from and
  its altitude; it yields course and distance), and the two conversions the property tree
  applies when a text leaf is read as a number or a number leaf as text. They are
  parameters of the model.
\<close>

datatype SGWayPoint = SGWayPoint real real

record collaborators =
  CourseAndDistance :: "SGWayPoint \<Rightarrow> real \<Rightarrow> real \<Rightarrow> real \<Rightarrow> real \<times> real"
  text_to_number :: "string \<Rightarrow> real"
  number_to_text :: "real \<Rightarrow> string"

text \<open>
  Modelled from the spec: the property-tree library (\<open>fgGetNode\<close>, \<open>SGPropertyNode\<close>) is
  missing from the sources. The spec's blackboard is a key/value store whose keys are
  \<open>/\<close>-separated paths and whose leaves hold scalars or strings; a missing key is
  created by the binding layer with a default zero value. The store is therefore a total
  function: a leaf that was never written holds the number 0, and creating it changes no
  reading. A node handle is the path of its leaf. Every call of the source passes
  \<open>create = true\<close>.
\<close>

type_synonym blackboard = "path \<Rightarrow> leaf"

definition empty_blackboard :: blackboard where
  "empty_blackboard = (\<lambda>p. Number 0)"

definition fgGetNode :: "path \<Rightarrow> blackboard \<Rightarrow> path \<times> blackboard" where
  "fgGetNode p bb = (p, bb)"

definition doubleValue :: "collaborators \<Rightarrow> leaf \<Rightarrow> real" where
  "doubleValue c l = (case l of Number x \<Rightarrow> x | Text s \<Rightarrow> text_to_number c s)"

definition stringValue :: "collaborators \<Rightarrow> leaf \<Rightarrow> string" where
  "stringValue c l = (case l of Text s \<Rightarrow> s | Number x \<Rightarrow> number_to_text c x)"

definition getDoubleValue :: "collaborators \<Rightarrow> blackboard \<Rightarrow> path \<Rightarrow> real" where
  "getDoubleValue c bb p = doubleValue c (bb p)"

definition getStringValue :: "collaborators \<Rightarrow> blackboard \<Rightarrow> path \<Rightarrow> string" where
  "getStringValue c bb p = stringValue c (bb p)"

definition setDoubleValue :: "path \<Rightarrow> real \<Rightarrow> blackboard \<Rightarrow> blackboard" where
  "setDoubleValue p v bb = bb(p := Number v)"

definition setFloatValue :: "path \<Rightarrow> real \<Rightarrow> blackboard \<Rightarrow> blackboard" where
  "setFloatValue p v bb = bb(p := Number v)"

definition setStringValue :: "path \<Rightarrow> string \<Rightarrow> blackboard \<Rightarrow> blackboard" where
  "setStringValue p s bb = bb(p := Text s)"

subsection \<open>Constants\<close>

text \<open>
  Modelled from the spec: \<open>include/globaldefs.h\<close> is missing from the sources. The spec
  has \<open>\<omega>_A = \<surd>2 \<cdot> \<pi> / L1_period\<close> and converts between degrees and radians.
\<close>

definition SGD_PI :: real where
  "SGD_PI = pi"

definition SG_DEGREES_TO_RADIANS :: real where
  "SG_DEGREES_TO_RADIANS = pi / 180"

definition SG_RADIANS_TO_DEGREES :: real where
  "SG_RADIANS_TO_DEGREES = 180 / pi"

text \<open>Lines 230 and 240 of \<open>circle_mgr.cxx\<close>.\<close>

definition sqrt_of_2 :: real where
  "sqrt_of_2 = 1.41421356237309504880"

definition gravity :: real where
  "gravity = 9.81"

subsection \<open>The constructor\<close>

text \<open>
  The fields the constructor sets from the task parameters; the members \<open>_direction\<close>,
  \<open>_radius_m\<close>, \<open>_target_agl_ft\<close> and \<open>_target_speed_kt\<close> are written \<open>m_direction\<close> and
  so on, since a name cannot start with an underscore here. The \<open>saved_*\<close> members are
  initialised and never used again; they are left out. The node pointers, \<open>NULL\<close> until
  \<open>bind\<close>, are the record \<open>nodes\<close> that \<open>bind\<close> returns, so that \<open>update\<close> cannot run
  on an unbound manager.
\<close>

record AuraCircleMgr =
  config_path :: string
  m_direction :: string
  m_radius_m :: real
  m_target_agl_ft :: real
  m_target_speed_kt :: real

definition initial_AuraCircleMgr :: AuraCircleMgr where
  "initial_AuraCircleMgr =
     \<lparr>config_path = '''', m_direction = ''left'', m_radius_m = 100,
      m_target_agl_ft = 0, m_target_speed_kt = 0\<rparr>"

text \<open>
  One pass of the loop over the children of the task branch (lines 64--80); a child is
  its name and its leaf. The second component collects what \<open>printf\<close> writes.
\<close>

definition ctor_child ::
  "collaborators \<Rightarrow> string \<times> leaf \<Rightarrow> AuraCircleMgr \<times> string list \<Rightarrow> AuraCircleMgr \<times> string list"
where
  "ctor_child c child st =
     (let name = fst child; node = snd child; m = fst st; out = snd st in
      if name = ''config'' then (m\<lparr>config_path := stringValue c node\<rparr>, out)
      else if name = ''direction'' then (m\<lparr>m_direction := stringValue c node\<rparr>, out)
      else if name = ''radius-m'' then (m\<lparr>m_radius_m := doubleValue c node\<rparr>, out)
      else if name = ''altitude-agl-ft'' then (m\<lparr>m_target_agl_ft := doubleValue c node\<rparr>, out)
      else if name = ''speed-kt'' then (m\<lparr>m_target_speed_kt := doubleValue c node\<rparr>, out)
      else (m, out @ [''Unknown circle task parameter: '' @ name @ [CHR 0x0A]]))"

definition new_AuraCircleMgr ::
  "collaborators \<Rightarrow> (string \<times> leaf) list \<Rightarrow> AuraCircleMgr \<times> string list"
where
  "new_AuraCircleMgr c branch = fold (ctor_child c) branch (initial_AuraCircleMgr, [])"

subsection \<open>bind\<close>

record nodes =
  lon_node :: path
  lat_node :: path
  alt_agl_node :: path
  true_heading_node :: path
  groundtrack_node :: path
  groundspeed_node :: path
  coord_lon_node :: path
  coord_lat_node :: path
  direction_node :: path
  radius_node :: path
  bank_limit_node :: path
  L1_period_node :: path
  override_agl_node :: path
  override_speed_node :: path
  exit_agl_node :: path
  exit_heading_node :: path
  fcs_mode_node :: path
  ap_speed_node :: path
  ap_agl_node :: path
  ap_roll_node :: path
  target_course_deg :: path
  wp_dist_m :: path
  wp_eta_sec :: path

text \<open>Lines 88--150: the handles in the order the source resolves them.\<close>

definition bind :: "collaborators \<Rightarrow> AuraCircleMgr \<Rightarrow> blackboard \<Rightarrow> nodes \<times> blackboard" where
  "bind c m bb0 =
     (let (lon, bb1) = fgGetNode ''/position/longitude-deg'' bb0;
          (lat, bb2) = fgGetNode ''/position/latitude-deg'' bb1;
          (alt_agl, bb3) = fgGetNode ''/position/altitude-agl-ft'' bb2;
          (true_heading, bb4) = fgGetNode ''/orientation/heading-deg'' bb3;
          (groundtrack, bb5) = fgGetNode ''/orientation/groundtrack-deg'' bb4;
          (groundspeed, bb6) = fgGetNode ''/velocity/groundspeed-ms'' bb5;
          (coord_lon, bb7) = fgGetNode (config_path m @ ''/'' @ ''longitude-deg'') bb6;
          (coord_lat, bb8) = fgGetNode (config_path m @ ''/'' @ ''latitude-deg'') bb7;
          (direction, bb9) = fgGetNode (config_path m @ ''/'' @ ''direction'') bb8;
          (radius, bb10) = fgGetNode (config_path m @ ''/'' @ ''radius-m'') bb9;
          (override_agl, bb11) = fgGetNode (config_path m @ ''/'' @ ''altitude-agl-ft'') bb10;
          bb12 = (if m_target_agl_ft m > 0
                  then setDoubleValue override_agl (m_target_agl_ft m) bb11 else bb11);
          (override_speed, bb13) = fgGetNode (config_path m @ ''/'' @ ''speed-kt'') bb12;
          bb14 = (if m_target_speed_kt m > 0
                  then setDoubleValue override_speed (m_target_speed_kt m) bb13 else bb13);
          (exit_agl, bb15) = fgGetNode (config_path m @ ''/'' @ ''exit-agl-ft'') bb14;
          (exit_heading, bb16) = fgGetNode (config_path m @ ''/'' @ ''exit-heading-deg'') bb15;
          (fcs_mode, bb17) = fgGetNode ''/config/fcs/mode'' bb16;
          (bank_limit, bb18) =
             fgGetNode ''/config/fcs/autopilot/L1-controller/bank-limit-deg'' bb17;
          (L1_period, bb19) = fgGetNode ''/config/fcs/autopilot/L1-controller/period'' bb18;
          bb20 = (if getDoubleValue c bb19 bank_limit < 0.1
                  then setDoubleValue bank_limit 20 bb19 else bb19);
          bb21 = (if getDoubleValue c bb20 L1_period < 0.1
                  then setDoubleValue L1_period 25 bb20 else bb20);
          (ap_speed, bb22) = fgGetNode ''/autopilot/settings/target-speed-kt'' bb21;
          (ap_agl, bb23) = fgGetNode ''/autopilot/settings/target-agl-ft'' bb22;
          (ap_roll, bb24) = fgGetNode ''/autopilot/settings/target-roll-deg'' bb23;
          (target_course, bb25) = fgGetNode ''/autopilot/settings/target-groundtrack-deg'' bb24;
          (wp_dist, bb26) = fgGetNode ''/mission/route/wp-dist-m'' bb25;
          (wp_eta, bb27) = fgGetNode ''/mission/route/wp-eta-sec'' bb26
      in (\<lparr>lon_node = lon, lat_node = lat, alt_agl_node = alt_agl,
           true_heading_node = true_heading, groundtrack_node = groundtrack,
           groundspeed_node = groundspeed, coord_lon_node = coord_lon,
           coord_lat_node = coord_lat, direction_node = direction, radius_node = radius,
           bank_limit_node = bank_limit, L1_period_node = L1_period,
           override_agl_node = override_agl, override_speed_node = override_speed,
           exit_agl_node = exit_agl, exit_heading_node = exit_heading,
           fcs_mode_node = fcs_mode, ap_speed_node = ap_speed, ap_agl_node = ap_agl,
           ap_roll_node = ap_roll, target_course_deg = target_course,
           wp_dist_m = wp_dist, wp_eta_sec = wp_eta\<rparr>, bb27))"

subsection \<open>update\<close>

text \<open>
  The idiom of lines 180--181, 208--209 and 217--218: one turn back above 360, then one
  turn forward below 0.
\<close>

definition wrap_course :: "real \<Rightarrow> real" where
  "wrap_course x =
     (let x1 = (if x > 360 then x - 360 else x)
      in if x1 < 0 then x1 + 360 else x1)"

text \<open>Lines 202--219: the target ground course from the actual distance.\<close>

definition target_crs_of :: "real \<Rightarrow> real \<Rightarrow> real \<Rightarrow> real \<Rightarrow> real" where
  "target_crs_of ideal_crs direction dist_m radius_m =
     (if dist_m < radius_m then
        (let offset_deg = direction * 90 * (1 - dist_m / radius_m)
         in wrap_course (ideal_crs + offset_deg))
      else if dist_m > radius_m then
        (let offset_dist = dist_m - radius_m;
             offset_dist = (if offset_dist > radius_m then radius_m else offset_dist);
             offset_deg = direction * 90 * offset_dist / radius_m
         in wrap_course (ideal_crs - offset_deg))
      else ideal_crs)"

text \<open>Lines 244--250: the two tests that limit the bank, in the source's order.\<close>

definition limit_bank :: "real \<Rightarrow> real \<Rightarrow> real" where
  "limit_bank bank_limit_deg target_bank_deg =
     (let b1 = (if target_bank_deg < - bank_limit_deg then - bank_limit_deg else target_bank_deg)
      in if b1 > bank_limit_deg then bank_limit_deg else b1)"

text \<open>
  The local variables of one tick, returned beside the blackboard so that statements can
  be made about them. \<open>t_target_bank_deg\<close> is the value before the bank limit is applied.
\<close>

record tick =
  t_direction :: real
  t_course_deg :: real
  t_dist_m :: real
  t_ideal_crs :: real
  t_radius_m :: real
  t_target_crs :: real
  t_gs_mps :: real
  t_course_error :: real
  t_accel :: real
  t_ideal_accel :: real
  t_total_accel :: real
  t_target_bank_deg :: real
  t_bank_limit_deg :: real

text \<open>
  Lines 160--264; the block of lines 266--320 is compiled out (\<open>#if 0\<close>). The division
  by \<open>L1_period\<close> is the one of the reals: it is the source's for every period but 0, where
  the source's quotient is infinite.
\<close>

definition update_run :: "collaborators \<Rightarrow> nodes \<Rightarrow> blackboard \<Rightarrow> tick \<times> blackboard" where
  "update_run c n bb0 =
     (let direction_str = getStringValue c bb0 (direction_node n);
          direction = (if direction_str = ''right'' then - 1 else 1);
          target = SGWayPoint (getDoubleValue c bb0 (coord_lon_node n))
                              (getDoubleValue c bb0 (coord_lat_node n));
          (course_deg, dist_m) =
             CourseAndDistance c target (getDoubleValue c bb0 (lon_node n))
                                        (getDoubleValue c bb0 (lat_node n)) 0;
          ideal_crs = wrap_course (course_deg + direction * 90);
          radius_m0 = getDoubleValue c bb0 (radius_node n);
          radius_m = (if radius_m0 < 10 then 10 else radius_m0);
          target_crs = target_crs_of ideal_crs direction dist_m radius_m;
          bb1 = setDoubleValue (target_course_deg n) target_crs bb0;
          L1_period = getDoubleValue c bb1 (L1_period_node n);
          gs_mps = getDoubleValue c bb1 (groundspeed_node n);
          omegaA = sqrt_of_2 * SGD_PI / L1_period;
          VomegaA = gs_mps * omegaA;
          course_error0 = getDoubleValue c bb1 (groundtrack_node n) - target_crs;
          course_error1 = (if course_error0 < - 180 then course_error0 + 360 else course_error0);
          course_error = (if course_error1 > 180 then course_error1 - 360 else course_error1);
          accel = 2 * sin (course_error * SG_DEGREES_TO_RADIANS) * VomegaA;
          ideal_accel = direction * gs_mps * gs_mps / radius_m;
          total_accel = ideal_accel + accel;
          target_bank = - arctan (total_accel / gravity);
          target_bank_deg = target_bank * SG_RADIANS_TO_DEGREES;
          bank_limit_deg = getDoubleValue c bb1 (bank_limit_node n);
          bb2 = setDoubleValue (ap_roll_node n) (limit_bank bank_limit_deg target_bank_deg) bb1;
          bb3 = setFloatValue (wp_dist_m n) dist_m bb2;
          bb4 = (if gs_mps > 0.1 then setFloatValue (wp_eta_sec n) (dist_m / gs_mps) bb3
                 else setFloatValue (wp_eta_sec n) 0 bb3)
      in (\<lparr>t_direction = direction, t_course_deg = course_deg, t_dist_m = dist_m,
           t_ideal_crs = ideal_crs, t_radius_m = radius_m, t_target_crs = target_crs,
           t_gs_mps = gs_mps, t_course_error = course_error, t_accel = accel,
           t_ideal_accel = ideal_accel, t_total_accel = total_accel,
           t_target_bank_deg = target_bank_deg, t_bank_limit_deg = bank_limit_deg\<rparr>, bb4))"

definition update :: "collaborators \<Rightarrow> nodes \<Rightarrow> blackboard \<Rightarrow> blackboard" where
  "update c n bb = snd (update_run c n bb)"

text \<open>Lines 326--338.\<close>

definition get_center :: "collaborators \<Rightarrow> nodes \<Rightarrow> blackboard \<Rightarrow> SGWayPoint" where
  "get_center c n bb =
     SGWayPoint (getDoubleValue c bb (coord_lon_node n)) (getDoubleValue c bb (coord_lat_node n))"

definition set_direction :: "nodes \<Rightarrow> string \<Rightarrow> blackboard \<Rightarrow> blackboard" where
  "set_direction n direction bb = setStringValue (direction_node n) direction bb"

definition set_radius :: "nodes \<Rightarrow> real \<Rightarrow> blackboard \<Rightarrow> blackboard" where
  "set_radius n radius_m bb = setDoubleValue (radius_node n) radius_m bb"


subsection \<open>The handles of a bound manager\<close>

text \<open>
  The handles \<open>bind\<close> resolves depend on the configuration path alone (lemma \<open>fst_bind\<close>).
\<close>

definition bound_nodes :: "string \<Rightarrow> nodes" where
  "bound_nodes cp =
     \<lparr>lon_node = ''/position/longitude-deg'',
      lat_node = ''/position/latitude-deg'',
      alt_agl_node = ''/position/altitude-agl-ft'',
      true_heading_node = ''/orientation/heading-deg'',
      groundtrack_node = ''/orientation/groundtrack-deg'',
      groundspeed_node = ''/velocity/groundspeed-ms'',
      coord_lon_node = cp @ ''/longitude-deg'',
      coord_lat_node = cp @ ''/latitude-deg'',
      direction_node = cp @ ''/direction'',
      radius_node = cp @ ''/radius-m'',
      bank_limit_node = ''/config/fcs/autopilot/L1-controller/bank-limit-deg'',
      L1_period_node = ''/config/fcs/autopilot/L1-controller/period'',
      override_agl_node = cp @ ''/altitude-agl-ft'',
      override_speed_node = cp @ ''/speed-kt'',
      exit_agl_node = cp @ ''/exit-agl-ft'',
      exit_heading_node = cp @ ''/exit-heading-deg'',
      fcs_mode_node = ''/config/fcs/mode'',
      ap_speed_node = ''/autopilot/settings/target-speed-kt'',
      ap_agl_node = ''/autopilot/settings/target-agl-ft'',
      ap_roll_node = ''/autopilot/settings/target-roll-deg'',
      target_course_deg = ''/autopilot/settings/target-groundtrack-deg'',
      wp_dist_m = ''/mission/route/wp-dist-m'',
      wp_eta_sec = ''/mission/route/wp-eta-sec''\<rparr>"


subsection \<open>Concrete inputs\<close>

text \<open>
  A stub of the collaborators for concrete ticks: the geodesic helper answers with a fixed
  bearing and distance, a text leaf reads as the number 0 and a number leaf as the empty
  text. \<open>circle_task\<close> is the manager built from the one task parameter
  \<open>config = /task/circle\<close>.
\<close>

definition stub_collaborators :: "real \<Rightarrow> real \<Rightarrow> collaborators" where
  "stub_collaborators brg dist_m =
     \<lparr>CourseAndDistance = (\<lambda>target lon lat alt. (brg, dist_m)),
      text_to_number = (\<lambda>s. 0), number_to_text = (\<lambda>x. [])\<rparr>"

definition circle_task :: AuraCircleMgr where
  "circle_task =
     fst (new_AuraCircleMgr (stub_collaborators 0 0) [(''config'', Text ''/task/circle'')])"

text \<open>
  \<open>override_task\<close> is the manager built with a speed override of 50 kt and an altitude
  override of 400 ft.
\<close>

definition override_task :: AuraCircleMgr where
  "override_task =
     fst (new_AuraCircleMgr (stub_collaborators 0 0)
            [(''config'', Text ''/task/circle''), (''speed-kt'', Number 50),
             (''altitude-agl-ft'', Number 400)])"

text \<open>
  \<open>task_nodes\<close> are the handles of \<open>circle_task\<close>, and \<open>tick_input dir r gt gs\<close> is the
  blackboard of a tick after \<open>bind\<close> on the empty tree: direction and radius set through
  the manager's setters, ground track and ground speed as the sensors would write them.
\<close>

definition task_nodes :: nodes where
  "task_nodes = fst (bind (stub_collaborators 0 0) circle_task empty_blackboard)"

definition tick_input :: "string \<Rightarrow> real \<Rightarrow> real \<Rightarrow> real \<Rightarrow> blackboard" where
  "tick_input dir r gt gs =
     set_direction task_nodes dir
       (set_radius task_nodes r
         (setDoubleValue (groundtrack_node task_nodes) gt
           (setDoubleValue (groundspeed_node task_nodes) gs
             (snd (bind (stub_collaborators 0 0) circle_task empty_blackboard)))))"

section \<open>Properties\<close>

subsection \<open>Handles, reads and writes\<close>

lemma fst_bind: "fst (bind c m bb) = bound_nodes (config_path m)"
  by (simp add: bind_def fgGetNode_def Let_def bound_nodes_def)

lemma append_eq_drop: "cp @ s = t \<Longrightarrow> drop (length t - length s) t = s"
  by auto

lemma wrap_course_range: "- 360 \<le> x \<Longrightarrow> x \<le> 720 \<Longrightarrow> 0 \<le> wrap_course x \<and> wrap_course x \<le> 360"
  by (simp add: wrap_course_def Let_def)


lemma getDoubleValue_setDoubleValue:
  "getDoubleValue c (setDoubleValue p v bb) q = (if q = p then v else getDoubleValue c bb q)"
  by (simp add: getDoubleValue_def setDoubleValue_def doubleValue_def)

lemma getDoubleValue_setFloatValue:
  "getDoubleValue c (setFloatValue p v bb) q = (if q = p then v else getDoubleValue c bb q)"
  by (simp add: getDoubleValue_def setFloatValue_def doubleValue_def)

lemma tick_direction:
  "t_direction (fst (update_run c n bb)) =
     (if getStringValue c bb (direction_node n) = ''right'' then - 1 else 1)"
  by (simp add: update_run_def Let_def split_def)

lemma tick_geodesic:
  "(t_course_deg (fst (update_run c n bb)), t_dist_m (fst (update_run c n bb))) =
     CourseAndDistance c (get_center c n bb)
       (getDoubleValue c bb (lon_node n)) (getDoubleValue c bb (lat_node n)) 0"
  by (simp add: update_run_def Let_def split_def get_center_def)

lemma tick_radius:
  "t_radius_m (fst (update_run c n bb)) =
     (if getDoubleValue c bb (radius_node n) < 10 then 10 else getDoubleValue c bb (radius_node n))"
  by (simp add: update_run_def Let_def split_def)

lemma tick_courses:
  "t_ideal_crs (fst (update_run c n bb)) =
     wrap_course (t_course_deg (fst (update_run c n bb)) + t_direction (fst (update_run c n bb)) * 90)"
  "t_target_crs (fst (update_run c n bb)) =
     target_crs_of (t_ideal_crs (fst (update_run c n bb))) (t_direction (fst (update_run c n bb)))
       (t_dist_m (fst (update_run c n bb))) (t_radius_m (fst (update_run c n bb)))"
  by (simp_all add: update_run_def Let_def split_def)

lemma tick_accels:
  "t_ideal_accel (fst (update_run c n bb)) =
     t_direction (fst (update_run c n bb)) * t_gs_mps (fst (update_run c n bb))
       * t_gs_mps (fst (update_run c n bb)) / t_radius_m (fst (update_run c n bb))"
  "t_total_accel (fst (update_run c n bb)) =
     t_ideal_accel (fst (update_run c n bb)) + t_accel (fst (update_run c n bb))"
  "t_target_bank_deg (fst (update_run c n bb)) =
     - arctan (t_total_accel (fst (update_run c n bb)) / gravity) * SG_RADIANS_TO_DEGREES"
  by (simp_all add: update_run_def Let_def split_def)

lemma update_writes:
  "update c n bb =
     bb(target_course_deg n := Number (t_target_crs (fst (update_run c n bb))),
        ap_roll_node n := Number (limit_bank (t_bank_limit_deg (fst (update_run c n bb)))
                                     (t_target_bank_deg (fst (update_run c n bb)))),
        wp_dist_m n := Number (t_dist_m (fst (update_run c n bb))),
        wp_eta_sec n := Number (if t_gs_mps (fst (update_run c n bb)) > 0.1
                                 then t_dist_m (fst (update_run c n bb)) / t_gs_mps (fst (update_run c n bb))
                                 else 0))"
  by (simp add: update_def update_run_def Let_def split_def setDoubleValue_def setFloatValue_def)

lemma tick_bound_reads:
  "t_gs_mps (fst (update_run c (bound_nodes cp) bb)) =
     getDoubleValue c bb (groundspeed_node (bound_nodes cp))"
  "t_bank_limit_deg (fst (update_run c (bound_nodes cp) bb)) =
     getDoubleValue c bb (bank_limit_node (bound_nodes cp))"
  by (simp_all add: update_run_def Let_def split_def bound_nodes_def getDoubleValue_setDoubleValue)

lemma tick_bound_course_error:
  "t_course_error (fst (update_run c (bound_nodes cp) bb)) =
     (let e0 = getDoubleValue c bb (groundtrack_node (bound_nodes cp))
                 - t_target_crs (fst (update_run c (bound_nodes cp) bb));
          e1 = (if e0 < - 180 then e0 + 360 else e0)
      in if e1 > 180 then e1 - 360 else e1)"
  by (simp add: update_run_def Let_def split_def bound_nodes_def getDoubleValue_setDoubleValue)

lemma tick_bound_accel:
  "t_accel (fst (update_run c (bound_nodes cp) bb)) =
     2 * sin (t_course_error (fst (update_run c (bound_nodes cp) bb)) * SG_DEGREES_TO_RADIANS)
       * (t_gs_mps (fst (update_run c (bound_nodes cp) bb))
           * (sqrt_of_2 * SGD_PI / getDoubleValue c bb (L1_period_node (bound_nodes cp))))"
  by (simp add: update_run_def Let_def split_def bound_nodes_def getDoubleValue_setDoubleValue)


lemma config_path_circle_task: "config_path circle_task = ''/task/circle''"
  by (simp add: circle_task_def new_AuraCircleMgr_def ctor_child_def initial_AuraCircleMgr_def
      stringValue_def)

lemma published_bound:
  "getDoubleValue c (update c (bound_nodes cp) bb) (target_course_deg (bound_nodes cp)) =
     t_target_crs (fst (update_run c (bound_nodes cp) bb))"
  "getDoubleValue c (update c (bound_nodes cp) bb) (ap_roll_node (bound_nodes cp)) =
     limit_bank (t_bank_limit_deg (fst (update_run c (bound_nodes cp) bb)))
       (t_target_bank_deg (fst (update_run c (bound_nodes cp) bb)))"
  "getDoubleValue c (update c (bound_nodes cp) bb) (wp_dist_m (bound_nodes cp)) =
     t_dist_m (fst (update_run c (bound_nodes cp) bb))"
  "getDoubleValue c (update c (bound_nodes cp) bb) (wp_eta_sec (bound_nodes cp)) =
     (if t_gs_mps (fst (update_run c (bound_nodes cp) bb)) > 0.1
      then t_dist_m (fst (update_run c (bound_nodes cp) bb))
             / t_gs_mps (fst (update_run c (bound_nodes cp) bb))
      else 0)"
  by (simp_all add: update_writes getDoubleValue_def doubleValue_def bound_nodes_def)

lemma limit_bank_range:
  "0 \<le> l \<Longrightarrow> - l \<le> limit_bank l x \<and> limit_bank l x \<le> l"
  by (simp add: limit_bank_def Let_def)

lemma snd_bind:
  "snd (bind c m bb) =
      (let b1 = (if m_target_agl_ft m > 0
                 then setDoubleValue (config_path m @ ''/altitude-agl-ft'') (m_target_agl_ft m) bb
                 else bb);
           b2 = (if m_target_speed_kt m > 0
                 then setDoubleValue (config_path m @ ''/speed-kt'') (m_target_speed_kt m) b1
                 else b1);
           b3 = (if getDoubleValue c b2 ''/config/fcs/autopilot/L1-controller/bank-limit-deg'' < 0.1
                 then setDoubleValue ''/config/fcs/autopilot/L1-controller/bank-limit-deg'' 20 b2
                 else b2)
       in if getDoubleValue c b3 ''/config/fcs/autopilot/L1-controller/period'' < 0.1
          then setDoubleValue ''/config/fcs/autopilot/L1-controller/period'' 25 b3 else b3)"
  by (simp add: bind_def Let_def fgGetNode_def)

lemma m_circle_task: "m_target_agl_ft circle_task = 0" "m_target_speed_kt circle_task = 0"
  by (simp_all add: circle_task_def new_AuraCircleMgr_def ctor_child_def initial_AuraCircleMgr_def
      stringValue_def)

lemma task_nodes: "task_nodes = bound_nodes ''/task/circle''"
  by (simp add: task_nodes_def fst_bind config_path_circle_task)

lemma bound_bb_circle_task:
  "snd (bind c circle_task empty_blackboard) =
     setDoubleValue ''/config/fcs/autopilot/L1-controller/period'' 25
       (setDoubleValue ''/config/fcs/autopilot/L1-controller/bank-limit-deg'' 20 empty_blackboard)"
  by (simp add: snd_bind Let_def m_circle_task getDoubleValue_setDoubleValue)
    (simp add: getDoubleValue_def empty_blackboard_def doubleValue_def)

lemma getStringValue_sets:
  "getStringValue c (setDoubleValue p v bb) q =
     (if q = p then number_to_text c v else getStringValue c bb q)"
  "getStringValue c (setStringValue p s bb) q = (if q = p then s else getStringValue c bb q)"
  by (simp_all add: getStringValue_def setDoubleValue_def setStringValue_def stringValue_def)

lemma getDoubleValue_setStringValue:
  "getDoubleValue c (setStringValue p s bb) q =
     (if q = p then text_to_number c s else getDoubleValue c bb q)"
  by (simp add: getDoubleValue_def setStringValue_def doubleValue_def)

lemma getDoubleValue_empty: "getDoubleValue c empty_blackboard q = 0"
  by (simp add: getDoubleValue_def empty_blackboard_def doubleValue_def)

lemma tick_input_reads:
  "getStringValue c (tick_input dir r gt gs) (direction_node task_nodes) = dir"
  "getDoubleValue c (tick_input dir r gt gs) (radius_node task_nodes) = r"
  "getDoubleValue c (tick_input dir r gt gs) (groundtrack_node task_nodes) = gt"
  "getDoubleValue c (tick_input dir r gt gs) (groundspeed_node task_nodes) = gs"
  "getDoubleValue c (tick_input dir r gt gs) (bank_limit_node task_nodes) = 20"
  "getDoubleValue c (tick_input dir r gt gs) (L1_period_node task_nodes) = 25"
  by (simp_all add: tick_input_def set_direction_def set_radius_def task_nodes bound_nodes_def
      bound_bb_circle_task getStringValue_sets getDoubleValue_setStringValue
      getDoubleValue_setDoubleValue getDoubleValue_empty)

lemma stub_geodesic: "CourseAndDistance (stub_collaborators b d) t lon lat alt = (b, d)"
  by (simp add: stub_collaborators_def)

lemma limit_bank_negative: "l < 0 \<Longrightarrow> limit_bank l x = l"
  by (simp add: limit_bank_def Let_def)


subsection \<open>C1: the commanded bank and the bank limit\<close>

text \<open>
  C1, amended. For every tick of a bound manager in which the bank limit read from the
  blackboard is not negative and the L1 period read from it is not 0, the published
  commanded bank (\<open>target-roll-deg\<close>) lies in \<open>[- bank_limit_deg, + bank_limit_deg]\<close>,
  whatever the position, ground track, ground speed, centre, radius and direction are.
  \<open>bind\<close> leaves a limit and a period of at least 0.1 (lines 134--139). A period of 0 is
  left out: the source divides by it, and what it publishes then (NaN when the track term
  is \<open>0 \<cdot> \<infinity>\<close>) is not a real number.
\<close>

theorem C1_bank_within_limit:
  assumes "n = fst (bind c m bb0)"
    and "0 \<le> getDoubleValue c bb (bank_limit_node n)"
    and "getDoubleValue c bb (L1_period_node n) \<noteq> 0"
  shows "- getDoubleValue c bb (bank_limit_node n) \<le> getDoubleValue c (update c n bb) (ap_roll_node n)
       \<and> getDoubleValue c (update c n bb) (ap_roll_node n) \<le> getDoubleValue c bb (bank_limit_node n)"
proof -
  have n: "n = bound_nodes (config_path m)"
    using assms(1) by (simp add: fst_bind)
  have "0 \<le> t_bank_limit_deg (fst (update_run c n bb))"
    using assms(2) by (simp add: n tick_bound_reads)
  then show ?thesis
    unfolding n published_bound(2) tick_bound_reads(2)[symmetric]
    by (rule limit_bank_range)
qed

theorem C1_bank_within_limit_witness:
  "- getDoubleValue (stub_collaborators 180 111.3) (tick_input ''left'' 100 270 20)
       (bank_limit_node task_nodes)
     \<le> getDoubleValue (stub_collaborators 180 111.3)
         (update (stub_collaborators 180 111.3) task_nodes (tick_input ''left'' 100 270 20))
         (ap_roll_node task_nodes)
   \<and> getDoubleValue (stub_collaborators 180 111.3)
         (update (stub_collaborators 180 111.3) task_nodes (tick_input ''left'' 100 270 20))
         (ap_roll_node task_nodes)
     \<le> getDoubleValue (stub_collaborators 180 111.3) (tick_input ''left'' 100 270 20)
         (bank_limit_node task_nodes)"
  using C1_bank_within_limit [of task_nodes "stub_collaborators 180 111.3" circle_task
      empty_blackboard "tick_input ''left'' 100 270 20"]
  by (simp add: task_nodes fst_bind config_path_circle_task tick_input_reads [unfolded task_nodes])


text \<open>
  A limit of \<open>-5\<close> written to the blackboard after \<open>bind\<close>: the first test raises the bank to
  5, the second lowers it to \<open>-5\<close>, and \<open>-5\<close> is published, below the lower end \<open>5\<close> of the
  claimed interval.
\<close>

theorem C1_bank_limit_counterexample:
  "getDoubleValue (stub_collaborators 0 0)
     (setDoubleValue (bank_limit_node task_nodes) (- 5) (tick_input ''left'' 100 0 0))
     (bank_limit_node task_nodes) = - 5
   \<and> getDoubleValue (stub_collaborators 0 0)
       (update (stub_collaborators 0 0) task_nodes
         (setDoubleValue (bank_limit_node task_nodes) (- 5) (tick_input ''left'' 100 0 0)))
       (ap_roll_node task_nodes) = - 5
   \<and> \<not> (- getDoubleValue (stub_collaborators 0 0)
           (setDoubleValue (bank_limit_node task_nodes) (- 5) (tick_input ''left'' 100 0 0))
           (bank_limit_node task_nodes)
         \<le> getDoubleValue (stub_collaborators 0 0)
             (update (stub_collaborators 0 0) task_nodes
               (setDoubleValue (bank_limit_node task_nodes) (- 5) (tick_input ''left'' 100 0 0)))
             (ap_roll_node task_nodes))"
proof -
  have l: "getDoubleValue (stub_collaborators 0 0)
     (setDoubleValue (bank_limit_node task_nodes) (- 5) (tick_input ''left'' 100 0 0))
     (bank_limit_node task_nodes) = - 5"
    by (simp add: getDoubleValue_setDoubleValue)
  have "getDoubleValue (stub_collaborators 0 0)
       (update (stub_collaborators 0 0) task_nodes
         (setDoubleValue (bank_limit_node task_nodes) (- 5) (tick_input ''left'' 100 0 0)))
       (ap_roll_node task_nodes) = - 5"
    unfolding task_nodes published_bound(2) tick_bound_reads(2)
    using l by (simp add: task_nodes limit_bank_negative)
  with l show ?thesis by simp
qed

lemma tick_direction_cases:
  "t_direction (fst (update_run c n bb)) = 1 \<or> t_direction (fst (update_run c n bb)) = - 1"
  by (simp add: tick_direction)

lemma tick_radius_ge: "10 \<le> t_radius_m (fst (update_run c n bb))"
  by (simp add: tick_radius)

lemma ideal_crs_range:
  assumes "0 \<le> brg" "brg < 360" "d = 1 \<or> d = - 1"
  shows "0 \<le> wrap_course (brg + d * 90) \<and> wrap_course (brg + d * 90) \<le> 360"
  using assms by (auto simp: wrap_course_def Let_def)

lemma target_crs_of_range:
  assumes i: "0 \<le> ideal" "ideal \<le> 360" and d: "d = 1 \<or> d = - 1"
    and dist: "0 \<le> dist_m" and r: "10 \<le> r"
  shows "0 \<le> target_crs_of ideal d dist_m r \<and> target_crs_of ideal d dist_m r \<le> 360"
proof -
  have rpos: "0 < r" using r by simp
  consider (inside) "dist_m < r" | (outside) "dist_m > r" | (on) "dist_m = r"
    by linarith
  then show ?thesis
  proof cases
    case inside
    define q where "q = 1 - dist_m / r"
    have "0 \<le> dist_m / r" using dist rpos by simp
    moreover have "dist_m / r < 1" using inside rpos by simp
    ultimately have q: "0 < q" "q \<le> 1" by (simp_all add: q_def)
    have t: "target_crs_of ideal d dist_m r = wrap_course (ideal + d * 90 * q)"
      using inside by (simp add: target_crs_of_def Let_def q_def)
    from d q i show ?thesis
      unfolding t by (auto intro!: wrap_course_range)
  next
    case outside
    define od where "od = (if dist_m - r > r then r else dist_m - r)"
    define q where "q = od / r"
    have "0 < od" "od \<le> r" using outside rpos by (simp_all add: od_def)
    then have q: "0 < q" "q \<le> 1" using rpos by (simp_all add: q_def)
    have t: "target_crs_of ideal d dist_m r = wrap_course (ideal - d * 90 * q)"
      using outside by (simp add: target_crs_of_def Let_def q_def od_def)
    from d q i show ?thesis
      unfolding t by (auto intro!: wrap_course_range)
  next
    case on
    then show ?thesis using i by (simp add: target_crs_of_def)
  qed
qed

subsection \<open>C2: the range of the target course\<close>

text \<open>
  C2, amended. For every tick of a bound manager, every bearing in \<open>[0, 360)\<close> returned by
  the geodesic helper, every distance (a length, so not negative), every radius and both
  directions, the published target ground-track course lies in the closed interval
  \<open>[0, 360]\<close>. The value 360 is published: each wrap of the source turns back only a
  course strictly above 360 (lines 180, 208 and 217).
\<close>

theorem C2_target_course_range:
  assumes "n = fst (bind c m bb0)"
    and "CourseAndDistance c (get_center c n bb)
           (getDoubleValue c bb (lon_node n)) (getDoubleValue c bb (lat_node n)) 0 = (brg, dist_m)"
    and "0 \<le> brg" and "brg < 360" and "0 \<le> dist_m"
  shows "0 \<le> getDoubleValue c (update c n bb) (target_course_deg n)
       \<and> getDoubleValue c (update c n bb) (target_course_deg n) \<le> 360"
proof -
  let ?T = "fst (update_run c n bb)"
  have n: "n = bound_nodes (config_path m)"
    using assms(1) by (simp add: fst_bind)
  have g: "t_course_deg ?T = brg" "t_dist_m ?T = dist_m"
    using tick_geodesic [of c n bb] assms(2) by simp_all
  have "0 \<le> t_ideal_crs ?T \<and> t_ideal_crs ?T \<le> 360"
    unfolding tick_courses(1) g
    using assms(3,4) tick_direction_cases by (rule ideal_crs_range)
  then have "0 \<le> t_target_crs ?T \<and> t_target_crs ?T \<le> 360"
    unfolding tick_courses(2) [of c n bb] g
    using tick_direction_cases assms(5) tick_radius_ge
    by (intro target_crs_of_range) simp_all
  then show ?thesis
    by (simp add: n published_bound(1))
qed

theorem C2_target_course_range_witness:
  "0 \<le> getDoubleValue (stub_collaborators 180 111.3)
         (update (stub_collaborators 180 111.3) task_nodes (tick_input ''left'' 100 270 20))
         (target_course_deg task_nodes)
   \<and> getDoubleValue (stub_collaborators 180 111.3)
         (update (stub_collaborators 180 111.3) task_nodes (tick_input ''left'' 100 270 20))
         (target_course_deg task_nodes) \<le> 360"
  using C2_target_course_range [of task_nodes "stub_collaborators 180 111.3" circle_task
      empty_blackboard "tick_input ''left'' 100 270 20" 180 "111.3"]
  by (simp add: task_nodes fst_bind config_path_circle_task stub_geodesic)

lemma tick_stub:
  "t_course_deg (fst (update_run (stub_collaborators b d) n bb)) = b"
  "t_dist_m (fst (update_run (stub_collaborators b d) n bb)) = d"
  using tick_geodesic [of "stub_collaborators b d" n bb] by (simp_all add: stub_geodesic)

text \<open>
  Bearing 270 to the centre, direction left, on the circle (distance = radius = 100): the
  ideal course is \<open>270 + 90 = 360\<close>, which the wrap keeps, and 360 is published.
\<close>

theorem C2_course_360_counterexample:
  "getDoubleValue (stub_collaborators 270 100)
     (update (stub_collaborators 270 100) task_nodes (tick_input ''left'' 100 0 20))
     (target_course_deg task_nodes) = 360
   \<and> \<not> getDoubleValue (stub_collaborators 270 100)
       (update (stub_collaborators 270 100) task_nodes (tick_input ''left'' 100 0 20))
       (target_course_deg task_nodes) < 360"
proof -
  let ?c = "stub_collaborators 270 100"
  let ?T = "fst (update_run ?c task_nodes (tick_input ''left'' 100 0 20))"
  have "t_direction ?T = 1"
    by (simp add: tick_direction tick_input_reads)
  moreover have "t_radius_m ?T = 100"
    by (simp add: tick_radius tick_input_reads)
  ultimately have "t_target_crs ?T = 360"
    by (simp add: tick_courses tick_stub target_crs_of_def wrap_course_def)
  then show ?thesis
    by (simp add: published_bound(1) [of ?c "''/task/circle''", folded task_nodes])
qed

lemma far_field_course:
  assumes b: "0 \<le> brg" "brg < 360" and d: "d = 1 \<or> d = - 1"
    and r: "10 \<le> r" and far: "2 * r \<le> dist_m"
  shows "target_crs_of (wrap_course (brg + d * 90)) d dist_m r =
           (if d = - 1 \<and> brg = 0 then 360 else brg)"
proof -
  have out: "r < dist_m" "\<not> dist_m < r" using r far by simp_all
  have od: "(if dist_m - r > r then r else dist_m - r) = r" using far by simp
  have "d * 90 * r / r = d * 90" using r by simp
  then have t: "target_crs_of (wrap_course (brg + d * 90)) d dist_m r =
      wrap_course (wrap_course (brg + d * 90) - d * 90)"
    using out od by (simp add: target_crs_of_def Let_def)
  from d b show ?thesis
    unfolding t by (auto simp: wrap_course_def Let_def)
qed

subsection \<open>C5: far from the circle\<close>

text \<open>
  C5, amended. For every tick of a bound manager in which the distance to the centre is at
  least twice the clamped radius, and every bearing in \<open>[0, 360)\<close>, the published target
  course is the bearing from the vehicle to the centre, for both directions, with one
  exception: when the direction is right and the bearing is exactly 0, the course 360 is
  published (the same direction, not wrapped to 0).
\<close>

theorem C5_far_field:
  assumes "n = fst (bind c m bb0)"
    and "CourseAndDistance c (get_center c n bb)
           (getDoubleValue c bb (lon_node n)) (getDoubleValue c bb (lat_node n)) 0 = (brg, dist_m)"
    and "0 \<le> brg" and "brg < 360"
    and "r = (if getDoubleValue c bb (radius_node n) < 10 then 10
              else getDoubleValue c bb (radius_node n))"
    and "2 * r \<le> dist_m"
  shows "getDoubleValue c (update c n bb) (target_course_deg n) =
           (if getStringValue c bb (direction_node n) = ''right'' \<and> brg = 0 then 360 else brg)"
proof -
  let ?T = "fst (update_run c n bb)"
  have n: "n = bound_nodes (config_path m)"
    using assms(1) by (simp add: fst_bind)
  have g: "t_course_deg ?T = brg" "t_dist_m ?T = dist_m"
    using tick_geodesic [of c n bb] assms(2) by simp_all
  have r: "t_radius_m ?T = r" "10 \<le> r"
    using assms(5) by (simp_all add: tick_radius)
  have "t_target_crs ?T = (if t_direction ?T = - 1 \<and> brg = 0 then 360 else brg)"
    unfolding tick_courses [of c n bb] g r
    using assms(3,4) tick_direction_cases r(2) assms(6) by (rule far_field_course)
  then show ?thesis
    by (simp add: n published_bound(1) tick_direction)
qed

theorem C5_far_field_witness:
  "getDoubleValue (stub_collaborators 180 250)
     (update (stub_collaborators 180 250) task_nodes (tick_input ''left'' 100 270 20))
     (target_course_deg task_nodes) = 180
   \<and> getDoubleValue (stub_collaborators 0 250)
     (update (stub_collaborators 0 250) task_nodes (tick_input ''right'' 100 270 20))
     (target_course_deg task_nodes) = 360"
  using C5_far_field [of task_nodes "stub_collaborators 180 250" circle_task
      empty_blackboard "tick_input ''left'' 100 270 20" 180 250 100]
    C5_far_field [of task_nodes "stub_collaborators 0 250" circle_task
      empty_blackboard "tick_input ''right'' 100 270 20" 0 250 100]
  by (simp add: task_nodes fst_bind config_path_circle_task stub_geodesic
      tick_input_reads [unfolded task_nodes])

text \<open>
  Bearing 0 to the centre, direction right, 300 m from the centre of a circle of radius
  100: the ideal course is \<open>0 - 90 + 360 = 270\<close>, the target \<open>270 + 90 = 360\<close>, which the
  wrap keeps; 360 is published and the bearing is 0.
\<close>

theorem C5_far_field_counterexample:
  "CourseAndDistance (stub_collaborators 0 300)
      (get_center (stub_collaborators 0 300) task_nodes (tick_input ''right'' 100 0 20))
      (getDoubleValue (stub_collaborators 0 300) (tick_input ''right'' 100 0 20) (lon_node task_nodes))
      (getDoubleValue (stub_collaborators 0 300) (tick_input ''right'' 100 0 20) (lat_node task_nodes))
      0 = (0, 300)
   \<and> getDoubleValue (stub_collaborators 0 300)
       (update (stub_collaborators 0 300) task_nodes (tick_input ''right'' 100 0 20))
       (target_course_deg task_nodes) = 360
   \<and> getDoubleValue (stub_collaborators 0 300)
       (update (stub_collaborators 0 300) task_nodes (tick_input ''right'' 100 0 20))
       (target_course_deg task_nodes) \<noteq> 0"
proof -
  let ?c = "stub_collaborators 0 300"
  let ?T = "fst (update_run ?c task_nodes (tick_input ''right'' 100 0 20))"
  have "t_direction ?T = - 1"
    by (simp add: tick_direction tick_input_reads)
  moreover have "t_radius_m ?T = 100"
    by (simp add: tick_radius tick_input_reads)
  ultimately have "t_target_crs ?T = 360"
    by (simp add: tick_courses tick_stub target_crs_of_def wrap_course_def)
  then show ?thesis
    by (simp add: published_bound(1) [of ?c "''/task/circle''", folded task_nodes] stub_geodesic)
qed

subsection \<open>C6: distance and time to the centre\<close>

text \<open>
  C6. On every tick of a bound manager the published \<open>wp-eta-sec\<close> is the distance to the
  centre divided by the ground speed if the ground speed is strictly greater than 0.1 m/s,
  and 0 if it is less than or equal to 0.1 m/s; the published \<open>wp-dist-m\<close> is the distance
  the geodesic helper returned.
\<close>

theorem C6_eta_and_distance:
  assumes "n = fst (bind c m bb0)"
    and "CourseAndDistance c (get_center c n bb)
           (getDoubleValue c bb (lon_node n)) (getDoubleValue c bb (lat_node n)) 0 = (brg, dist_m)"
    and "gs_mps = getDoubleValue c bb (groundspeed_node n)"
  shows "getDoubleValue c (update c n bb) (wp_eta_sec n) =
           (if gs_mps > 0.1 then dist_m / gs_mps else 0)
       \<and> getDoubleValue c (update c n bb) (wp_dist_m n) = dist_m"
proof -
  have n: "n = bound_nodes (config_path m)"
    using assms(1) by (simp add: fst_bind)
  have g: "t_dist_m (fst (update_run c n bb)) = dist_m"
    using tick_geodesic [of c n bb] assms(2) by simp
  show ?thesis
    using g assms(3) by (simp add: n published_bound(3,4) tick_bound_reads(1))
qed

theorem C6_eta_and_distance_witness:
  "getDoubleValue (stub_collaborators 180 250)
     (update (stub_collaborators 180 250) task_nodes (tick_input ''left'' 100 270 20))
     (wp_eta_sec task_nodes) = 12.5
   \<and> getDoubleValue (stub_collaborators 180 250)
     (update (stub_collaborators 180 250) task_nodes (tick_input ''left'' 100 270 20))
     (wp_dist_m task_nodes) = 250
   \<and> getDoubleValue (stub_collaborators 180 250)
     (update (stub_collaborators 180 250) task_nodes (tick_input ''left'' 100 270 0.05))
     (wp_eta_sec task_nodes) = 0"
  using C6_eta_and_distance [of task_nodes "stub_collaborators 180 250" circle_task
      empty_blackboard "tick_input ''left'' 100 270 20" 180 250 20]
    C6_eta_and_distance [of task_nodes "stub_collaborators 180 250" circle_task
      empty_blackboard "tick_input ''left'' 100 270 0.05" 180 250 "0.05"]
  by (simp add: task_nodes fst_bind config_path_circle_task stub_geodesic
      tick_input_reads [unfolded task_nodes])

lemma ctor_direction_silent:
  "new_AuraCircleMgr c [(''direction'', Text s)] = (initial_AuraCircleMgr\<lparr>m_direction := s\<rparr>, [])"
  by (simp add: new_AuraCircleMgr_def ctor_child_def stringValue_def)

subsection \<open>C8: the direction string\<close>

text \<open>
  C8. On every tick the direction sign used by \<open>update\<close> is \<open>-1\<close> if and only if the
  direction string read from the blackboard equals \<open>right\<close>; every other string yields the
  sign \<open>+1\<close> (left). This sign is the one in the ideal course and in the centripetal term.
  \<open>update\<close> has no error result and writes no log (its \<open>printf\<close> calls are comments), so
  its model has neither; the constructor logs unknown parameter names only, and a task
  parameter \<open>direction\<close> of any value leaves its log empty.
\<close>

theorem C8_direction_sign:
  "(t_direction (fst (update_run c n bb)) = - 1
      \<longleftrightarrow> getStringValue c bb (direction_node n) = ''right'')
   \<and> (getStringValue c bb (direction_node n) \<noteq> ''right''
      \<longrightarrow> t_direction (fst (update_run c n bb)) = 1)
   \<and> t_ideal_crs (fst (update_run c n bb)) =
       wrap_course (t_course_deg (fst (update_run c n bb))
                     + t_direction (fst (update_run c n bb)) * 90)
   \<and> t_ideal_accel (fst (update_run c n bb)) =
       t_direction (fst (update_run c n bb)) * t_gs_mps (fst (update_run c n bb))
         * t_gs_mps (fst (update_run c n bb)) / t_radius_m (fst (update_run c n bb))
   \<and> snd (new_AuraCircleMgr c [(''direction'', Text s)]) = []"
  by (simp add: tick_direction tick_courses(1) tick_accels(1) ctor_direction_silent)

theorem C8_direction_sign_witness:
  "t_direction (fst (update_run (stub_collaborators 180 250) task_nodes
      (tick_input ''banana'' 100 270 20))) = 1
   \<and> t_direction (fst (update_run (stub_collaborators 180 250) task_nodes
      (tick_input [] 100 270 20))) = 1
   \<and> t_direction (fst (update_run (stub_collaborators 180 250) task_nodes
      (tick_input ''right'' 100 270 20))) = - 1
   \<and> snd (new_AuraCircleMgr (stub_collaborators 180 250) [(''direction'', Text ''banana'')]) = []"
  using C8_direction_sign [of "stub_collaborators 180 250" task_nodes
      "tick_input ''banana'' 100 270 20" "''banana''"]
    C8_direction_sign [of "stub_collaborators 180 250" task_nodes
      "tick_input [] 100 270 20" "''banana''"]
    C8_direction_sign [of "stub_collaborators 180 250" task_nodes
      "tick_input ''right'' 100 270 20" "''banana''"]
  by (simp add: tick_input_reads)

lemma limit_bank_saturate: "0 \<le> l \<Longrightarrow> limit_bank l x = max (- l) (min l x)"
  by (simp add: limit_bank_def Let_def)

lemma wrap_error_full_turn:
  "x \<in> {0, 360, - 360} \<Longrightarrow>
     (let e0 = x; e1 = (if e0 < - 180 then e0 + 360 else e0)
      in if e1 > 180 then e1 - 360 else e1) = (0::real)"
  by auto

subsection \<open>C3: the steady circle\<close>

text \<open>
  C3. If the distance to the centre equals the clamped radius \<open>R\<close>, the ground track
  equals the ideal tangent course (the bearing to the centre plus \<open>d \<cdot> 90\<close>, normalized:
  wrapped as \<open>update\<close> wraps it, or a full turn away from that, so that a ground track of 0
  stands for an ideal course of 360) and the ground speed \<open>V\<close> is positive, then the
  course error and the track acceleration term are exactly 0 and the published bank is
  \<open>- atan (d \<cdot> V\<^sup>2 / (R \<cdot> 9.81))\<close> in degrees, limited by the two tests of \<open>update\<close>; for a
  limit that is not negative this is the saturation to \<open>[- bank_limit_deg, + bank_limit_deg]\<close>.
  The L1 period read from the blackboard is not 0, as after \<open>bind\<close>: the source divides
  by it, and for a period of 0 its track term is \<open>0 \<cdot> \<infinity>\<close>, which is NaN and not 0.
\<close>

theorem C3_steady_circle:
  assumes "n = fst (bind c m bb0)"
    and "CourseAndDistance c (get_center c n bb)
           (getDoubleValue c bb (lon_node n)) (getDoubleValue c bb (lat_node n)) 0 = (brg, dist_m)"
    and "R = (if getDoubleValue c bb (radius_node n) < 10 then 10
              else getDoubleValue c bb (radius_node n))"
    and "d = (if getStringValue c bb (direction_node n) = ''right'' then - 1 else 1)"
    and "V = getDoubleValue c bb (groundspeed_node n)"
    and "bank_limit_deg = getDoubleValue c bb (bank_limit_node n)"
    and "dist_m = R"
    and "getDoubleValue c bb (groundtrack_node n) - wrap_course (brg + d * 90) \<in> {0, 360, - 360}"
    and "0 < V"
    and "getDoubleValue c bb (L1_period_node n) \<noteq> 0"
  shows "t_course_error (fst (update_run c n bb)) = 0
       \<and> t_accel (fst (update_run c n bb)) = 0
       \<and> getDoubleValue c (update c n bb) (ap_roll_node n) =
           limit_bank bank_limit_deg (- arctan (d * V\<^sup>2 / (R * 9.81)) * (180 / pi))
       \<and> (0 \<le> bank_limit_deg \<longrightarrow>
           getDoubleValue c (update c n bb) (ap_roll_node n) =
             max (- bank_limit_deg)
               (min bank_limit_deg (- arctan (d * V\<^sup>2 / (R * 9.81)) * (180 / pi))))"
proof -
  let ?T = "fst (update_run c n bb)"
  have n: "n = bound_nodes (config_path m)"
    using assms(1) by (simp add: fst_bind)
  have g: "t_course_deg ?T = brg" "t_dist_m ?T = R"
    using tick_geodesic [of c n bb] assms(2,7) by simp_all
  have r: "t_radius_m ?T = R"
    using assms(3) by (simp add: tick_radius)
  have d: "t_direction ?T = d"
    using assms(4) by (simp add: tick_direction)
  have v: "t_gs_mps ?T = V" and l: "t_bank_limit_deg ?T = bank_limit_deg"
    using assms(5,6) by (simp_all add: n tick_bound_reads)
  have ideal: "t_ideal_crs ?T = wrap_course (brg + d * 90)"
    by (simp add: tick_courses(1) [of c n bb] g d)
  have crs: "t_target_crs ?T = wrap_course (brg + d * 90)"
    unfolding tick_courses(2) [of c n bb] ideal g r d
    by (simp add: target_crs_of_def)
  have "getDoubleValue c bb (groundtrack_node n) - t_target_crs ?T \<in> {0, 360, - 360}"
    using assms(8) by (simp only: crs)
  then have err: "t_course_error ?T = 0"
    using tick_bound_course_error [of c "config_path m" bb]
    by (simp only: n [symmetric] wrap_error_full_turn)
  have acc: "t_accel ?T = 0"
    using tick_bound_accel [of c "config_path m" bb]
    by (simp add: n [symmetric] err)
  have "t_total_accel ?T = d * V\<^sup>2 / R"
    by (simp add: tick_accels(2) [of c n bb] tick_accels(1) [of c n bb] acc d v r power2_eq_square)
  then have "t_target_bank_deg ?T = - arctan (d * V\<^sup>2 / (R * 9.81)) * (180 / pi)"
    by (simp add: tick_accels(3) [of c n bb] gravity_def SG_RADIANS_TO_DEGREES_def)
  then have roll: "getDoubleValue c (update c n bb) (ap_roll_node n) =
           limit_bank bank_limit_deg (- arctan (d * V\<^sup>2 / (R * 9.81)) * (180 / pi))"
    using published_bound(2) [of c "config_path m" bb]
    by (simp add: n [symmetric] l)
  show ?thesis
    using err acc roll by (simp add: limit_bank_saturate)
qed


theorem C3_steady_circle_witness:
  "t_course_error (fst (update_run (stub_collaborators 180 150) task_nodes
      (tick_input ''left'' 150 270 25))) = 0
   \<and> t_accel (fst (update_run (stub_collaborators 180 150) task_nodes
      (tick_input ''left'' 150 270 25))) = 0
   \<and> getDoubleValue (stub_collaborators 180 150)
       (update (stub_collaborators 180 150) task_nodes (tick_input ''left'' 150 270 25))
       (ap_roll_node task_nodes) =
     max (- 20) (min 20 (- arctan (1 * 25\<^sup>2 / (150 * 9.81)) * (180 / pi)))
   \<and> t_course_error (fst (update_run (stub_collaborators 270 150) task_nodes
      (tick_input ''left'' 150 0 25))) = 0
   \<and> t_accel (fst (update_run (stub_collaborators 270 150) task_nodes
      (tick_input ''left'' 150 0 25))) = 0
   \<and> getDoubleValue (stub_collaborators 270 150)
       (update (stub_collaborators 270 150) task_nodes (tick_input ''left'' 150 0 25))
       (ap_roll_node task_nodes) =
     max (- 20) (min 20 (- arctan (1 * 25\<^sup>2 / (150 * 9.81)) * (180 / pi)))"
  using C3_steady_circle [of task_nodes "stub_collaborators 180 150" circle_task
      empty_blackboard "tick_input ''left'' 150 270 25" 180 150 150 1 25 20]
    C3_steady_circle [of task_nodes "stub_collaborators 270 150" circle_task
      empty_blackboard "tick_input ''left'' 150 0 25" 270 150 150 1 25 20]
  by (simp add: task_nodes fst_bind config_path_circle_task stub_geodesic
      tick_input_reads [unfolded task_nodes] wrap_course_def)

lemma config_paths_distinct:
  "cp @ ''/longitude-deg'' \<noteq> ''/orientation/groundtrack-deg''"
  "cp @ ''/latitude-deg'' \<noteq> ''/orientation/groundtrack-deg''"
  "cp @ ''/direction'' \<noteq> ''/orientation/groundtrack-deg''"
  "cp @ ''/radius-m'' \<noteq> ''/orientation/groundtrack-deg''"
  by (auto dest: append_eq_drop)

lemma tick_groundtrack_indep:
  assumes "n = bound_nodes cp"
  shows "t_target_crs (fst (update_run c n (setDoubleValue (groundtrack_node n) v bb))) =
           t_target_crs (fst (update_run c n bb))"
    and "t_direction (fst (update_run c n (setDoubleValue (groundtrack_node n) v bb))) =
           t_direction (fst (update_run c n bb))"
    and "t_radius_m (fst (update_run c n (setDoubleValue (groundtrack_node n) v bb))) =
           t_radius_m (fst (update_run c n bb))"
    and "t_gs_mps (fst (update_run c n (setDoubleValue (groundtrack_node n) v bb))) =
           t_gs_mps (fst (update_run c n bb))"
    and "t_bank_limit_deg (fst (update_run c n (setDoubleValue (groundtrack_node n) v bb))) =
           t_bank_limit_deg (fst (update_run c n bb))"
    and "getDoubleValue c (setDoubleValue (groundtrack_node n) v bb) (L1_period_node n) =
           getDoubleValue c bb (L1_period_node n)"
    and "getDoubleValue c (setDoubleValue (groundtrack_node n) v bb) (groundtrack_node n) = v"
  unfolding assms
  by (simp_all add: update_run_def Let_def split_def bound_nodes_def getDoubleValue_setDoubleValue
      getStringValue_sets config_paths_distinct)

subsection \<open>C9: course wrap\<close>

text \<open>
  C9. For two ticks of a bound manager that differ only in the ground track, 359 degrees
  in one and \<open>-1\<close> degree in the other, with the target course 1 degree: the course error
  is \<open>-2\<close> degrees in both, and the published commanded bank is the same.
\<close>

theorem C9_course_wrap:
  assumes "n = fst (bind c m bb0)"
    and "bb1 = setDoubleValue (groundtrack_node n) 359 bb"
    and "bb2 = setDoubleValue (groundtrack_node n) (- 1) bb"
    and "t_target_crs (fst (update_run c n bb1)) = 1"
  shows "t_course_error (fst (update_run c n bb1)) = - 2
       \<and> t_course_error (fst (update_run c n bb2)) = - 2
       \<and> getDoubleValue c (update c n bb1) (ap_roll_node n) =
           getDoubleValue c (update c n bb2) (ap_roll_node n)"
proof -
  let ?T1 = "fst (update_run c n bb1)" and ?T2 = "fst (update_run c n bb2)"
  have n: "n = bound_nodes (config_path m)"
    using assms(1) by (simp add: fst_bind)
  note indep = tick_groundtrack_indep [OF n, of c _ bb]
  have crs: "t_target_crs ?T1 = 1" "t_target_crs ?T2 = 1"
    using assms(4) by (simp_all add: assms(2,3) indep(1))
  have e1: "t_course_error ?T1 = - 2"
    using tick_bound_course_error [of c "config_path m" bb1]
    by (simp add: n [symmetric] crs) (simp add: assms(2) indep(7))
  have e2: "t_course_error ?T2 = - 2"
    using tick_bound_course_error [of c "config_path m" bb2]
    by (simp add: n [symmetric] crs) (simp add: assms(3) indep(7))
  have same: "t_direction ?T1 = t_direction ?T2" "t_radius_m ?T1 = t_radius_m ?T2"
    "t_gs_mps ?T1 = t_gs_mps ?T2" "t_bank_limit_deg ?T1 = t_bank_limit_deg ?T2"
    "getDoubleValue c bb1 (L1_period_node n) = getDoubleValue c bb2 (L1_period_node n)"
    by (simp_all add: assms(2,3) indep)
  have "t_accel ?T1 = t_accel ?T2"
    using tick_bound_accel [of c "config_path m" bb1] tick_bound_accel [of c "config_path m" bb2]
    by (simp add: n [symmetric] e1 e2 same)
  then have "t_target_bank_deg ?T1 = t_target_bank_deg ?T2"
    by (simp add: tick_accels [of c n bb1] tick_accels [of c n bb2] same)
  then have "getDoubleValue c (update c n bb1) (ap_roll_node n) =
           getDoubleValue c (update c n bb2) (ap_roll_node n)"
    using published_bound(2) [of c "config_path m" bb1] published_bound(2) [of c "config_path m" bb2]
    by (simp add: n [symmetric] same)
  with e1 e2 show ?thesis by simp
qed

theorem C9_course_wrap_witness:
  "t_target_crs (fst (update_run (stub_collaborators 271 100) task_nodes
      (setDoubleValue (groundtrack_node task_nodes) 359 (tick_input ''left'' 100 0 20)))) = 1
   \<and> t_course_error (fst (update_run (stub_collaborators 271 100) task_nodes
      (setDoubleValue (groundtrack_node task_nodes) 359 (tick_input ''left'' 100 0 20)))) = - 2
   \<and> t_course_error (fst (update_run (stub_collaborators 271 100) task_nodes
      (setDoubleValue (groundtrack_node task_nodes) (- 1) (tick_input ''left'' 100 0 20)))) = - 2
   \<and> getDoubleValue (stub_collaborators 271 100)
       (update (stub_collaborators 271 100) task_nodes
         (setDoubleValue (groundtrack_node task_nodes) 359 (tick_input ''left'' 100 0 20)))
       (ap_roll_node task_nodes) =
     getDoubleValue (stub_collaborators 271 100)
       (update (stub_collaborators 271 100) task_nodes
         (setDoubleValue (groundtrack_node task_nodes) (- 1) (tick_input ''left'' 100 0 20)))
       (ap_roll_node task_nodes)"
proof -
  let ?c = "stub_collaborators 271 100"
  let ?bb = "tick_input ''left'' 100 0 20"
  have n: "task_nodes = fst (bind ?c circle_task empty_blackboard)"
    by (simp add: task_nodes fst_bind config_path_circle_task)
  have "t_direction (fst (update_run ?c task_nodes ?bb)) = 1"
    by (simp add: tick_direction tick_input_reads)
  moreover have "t_radius_m (fst (update_run ?c task_nodes ?bb)) = 100"
    by (simp add: tick_radius tick_input_reads)
  ultimately have "t_target_crs (fst (update_run ?c task_nodes ?bb)) = 1"
    by (simp add: tick_courses tick_stub target_crs_of_def wrap_course_def)
  then have crs: "t_target_crs (fst (update_run ?c task_nodes
      (setDoubleValue (groundtrack_node task_nodes) 359 ?bb))) = 1"
    by (simp add: tick_groundtrack_indep(1) [OF task_nodes])
  from C9_course_wrap [OF n refl refl crs] crs show ?thesis by simp
qed

lemma config_paths_not_written:
  "cp @ ''/longitude-deg'' \<noteq> ''/autopilot/settings/target-groundtrack-deg''"
  "cp @ ''/longitude-deg'' \<noteq> ''/autopilot/settings/target-roll-deg''"
  "cp @ ''/longitude-deg'' \<noteq> ''/mission/route/wp-dist-m''"
  "cp @ ''/longitude-deg'' \<noteq> ''/mission/route/wp-eta-sec''"
  "cp @ ''/latitude-deg'' \<noteq> ''/autopilot/settings/target-groundtrack-deg''"
  "cp @ ''/latitude-deg'' \<noteq> ''/autopilot/settings/target-roll-deg''"
  "cp @ ''/latitude-deg'' \<noteq> ''/mission/route/wp-dist-m''"
  "cp @ ''/latitude-deg'' \<noteq> ''/mission/route/wp-eta-sec''"
  "cp @ ''/direction'' \<noteq> ''/autopilot/settings/target-groundtrack-deg''"
  "cp @ ''/direction'' \<noteq> ''/autopilot/settings/target-roll-deg''"
  "cp @ ''/direction'' \<noteq> ''/mission/route/wp-dist-m''"
  "cp @ ''/direction'' \<noteq> ''/mission/route/wp-eta-sec''"
  "cp @ ''/radius-m'' \<noteq> ''/autopilot/settings/target-groundtrack-deg''"
  "cp @ ''/radius-m'' \<noteq> ''/autopilot/settings/target-roll-deg''"
  "cp @ ''/radius-m'' \<noteq> ''/mission/route/wp-dist-m''"
  "cp @ ''/radius-m'' \<noteq> ''/mission/route/wp-eta-sec''"
  "cp @ ''/altitude-agl-ft'' \<noteq> ''/autopilot/settings/target-groundtrack-deg''"
  "cp @ ''/altitude-agl-ft'' \<noteq> ''/autopilot/settings/target-roll-deg''"
  "cp @ ''/altitude-agl-ft'' \<noteq> ''/mission/route/wp-dist-m''"
  "cp @ ''/altitude-agl-ft'' \<noteq> ''/mission/route/wp-eta-sec''"
  "cp @ ''/speed-kt'' \<noteq> ''/autopilot/settings/target-groundtrack-deg''"
  "cp @ ''/speed-kt'' \<noteq> ''/autopilot/settings/target-roll-deg''"
  "cp @ ''/speed-kt'' \<noteq> ''/mission/route/wp-dist-m''"
  "cp @ ''/speed-kt'' \<noteq> ''/mission/route/wp-eta-sec''"
  "cp @ ''/exit-agl-ft'' \<noteq> ''/autopilot/settings/target-groundtrack-deg''"
  "cp @ ''/exit-agl-ft'' \<noteq> ''/autopilot/settings/target-roll-deg''"
  "cp @ ''/exit-agl-ft'' \<noteq> ''/mission/route/wp-dist-m''"
  "cp @ ''/exit-agl-ft'' \<noteq> ''/mission/route/wp-eta-sec''"
  "cp @ ''/exit-heading-deg'' \<noteq> ''/autopilot/settings/target-groundtrack-deg''"
  "cp @ ''/exit-heading-deg'' \<noteq> ''/autopilot/settings/target-roll-deg''"
  "cp @ ''/exit-heading-deg'' \<noteq> ''/mission/route/wp-dist-m''"
  "cp @ ''/exit-heading-deg'' \<noteq> ''/mission/route/wp-eta-sec''"
  by (auto dest: append_eq_drop)

lemma update_frame:
  assumes "p \<noteq> target_course_deg n" "p \<noteq> ap_roll_node n" "p \<noteq> wp_dist_m n" "p \<noteq> wp_eta_sec n"
  shows "update c n bb p = bb p"
  using assms by (simp add: update_writes)

lemma update_frame_iterated:
  assumes "p \<noteq> target_course_deg n" "p \<noteq> ap_roll_node n" "p \<noteq> wp_dist_m n" "p \<noteq> wp_eta_sec n"
  shows "((update c n) ^^ k) bb p = bb p"
  by (induction k) (simp_all add: update_frame [OF assms])

lemma update_written:
  "update c (bound_nodes cp) bb (target_course_deg (bound_nodes cp)) =
     Number (t_target_crs (fst (update_run c (bound_nodes cp) bb)))"
  "update c (bound_nodes cp) bb (ap_roll_node (bound_nodes cp)) =
     Number (limit_bank (t_bank_limit_deg (fst (update_run c (bound_nodes cp) bb)))
               (t_target_bank_deg (fst (update_run c (bound_nodes cp) bb))))"
  "update c (bound_nodes cp) bb (wp_dist_m (bound_nodes cp)) =
     Number (t_dist_m (fst (update_run c (bound_nodes cp) bb)))"
  "update c (bound_nodes cp) bb (wp_eta_sec (bound_nodes cp)) =
     Number (if t_gs_mps (fst (update_run c (bound_nodes cp) bb)) > 0.1
             then t_dist_m (fst (update_run c (bound_nodes cp) bb))
                    / t_gs_mps (fst (update_run c (bound_nodes cp) bb))
             else 0)"
  by (simp_all add: update_writes bound_nodes_def)

lemma other_nodes_not_written:
  assumes "n = bound_nodes cp"
    and "p \<in> {lon_node n, lat_node n, alt_agl_node n, true_heading_node n, groundtrack_node n,
             groundspeed_node n, coord_lon_node n, coord_lat_node n, direction_node n,
             radius_node n, bank_limit_node n, L1_period_node n, override_agl_node n,
             override_speed_node n, exit_agl_node n, exit_heading_node n, fcs_mode_node n,
             ap_speed_node n, ap_agl_node n}"
  shows "p \<noteq> target_course_deg n \<and> p \<noteq> ap_roll_node n \<and> p \<noteq> wp_dist_m n \<and> p \<noteq> wp_eta_sec n"
  using assms(2) unfolding assms(1)
  by (auto simp: bound_nodes_def config_paths_not_written)

subsection \<open>C10: what a tick writes\<close>

text \<open>
  C10. A tick of a bound manager writes exactly four leaves, \<open>target-groundtrack-deg\<close>,
  \<open>target-roll-deg\<close>, \<open>wp-dist-m\<close> and \<open>wp-eta-sec\<close> (four different paths, each given the
  value the tick computed), and leaves every other leaf of the blackboard unchanged. None
  of the other nineteen bound leaves is one of the four, whatever the configuration path
  is; so the circle configuration (centre longitude and latitude, direction, radius) and
  the tuning keys (bank limit, L1 period), like every other bound leaf, hold after any
  number of ticks what they held before.
\<close>

theorem C10_update_frame:
  assumes "n = fst (bind c m bb0)"
  shows "(\<forall>p. p \<notin> {target_course_deg n, ap_roll_node n, wp_dist_m n, wp_eta_sec n}
            \<longrightarrow> update c n bb p = bb p)
       \<and> distinct [target_course_deg n, ap_roll_node n, wp_dist_m n, wp_eta_sec n]
       \<and> update c n bb (target_course_deg n) = Number (t_target_crs (fst (update_run c n bb)))
       \<and> update c n bb (ap_roll_node n) =
           Number (limit_bank (t_bank_limit_deg (fst (update_run c n bb)))
                     (t_target_bank_deg (fst (update_run c n bb))))
       \<and> update c n bb (wp_dist_m n) = Number (t_dist_m (fst (update_run c n bb)))
       \<and> update c n bb (wp_eta_sec n) =
           Number (if t_gs_mps (fst (update_run c n bb)) > 0.1
                   then t_dist_m (fst (update_run c n bb)) / t_gs_mps (fst (update_run c n bb))
                   else 0)
       \<and> (\<forall>p \<in> {lon_node n, lat_node n, alt_agl_node n, true_heading_node n, groundtrack_node n,
                 groundspeed_node n, coord_lon_node n, coord_lat_node n, direction_node n,
                 radius_node n, bank_limit_node n, L1_period_node n, override_agl_node n,
                 override_speed_node n, exit_agl_node n, exit_heading_node n, fcs_mode_node n,
                 ap_speed_node n, ap_agl_node n}.
            \<forall>k. ((update c n) ^^ k) bb p = bb p)"
proof -
  have n: "n = bound_nodes (config_path m)"
    using assms by (simp add: fst_bind)
  have frame: "\<forall>p. p \<notin> {target_course_deg n, ap_roll_node n, wp_dist_m n, wp_eta_sec n}
            \<longrightarrow> update c n bb p = bb p"
    by (simp add: update_frame)
  have four: "distinct [target_course_deg n, ap_roll_node n, wp_dist_m n, wp_eta_sec n]"
    by (simp add: n bound_nodes_def)
  have others: "\<forall>p \<in> {lon_node n, lat_node n, alt_agl_node n, true_heading_node n, groundtrack_node n,
                 groundspeed_node n, coord_lon_node n, coord_lat_node n, direction_node n,
                 radius_node n, bank_limit_node n, L1_period_node n, override_agl_node n,
                 override_speed_node n, exit_agl_node n, exit_heading_node n, fcs_mode_node n,
                 ap_speed_node n, ap_agl_node n}.
            \<forall>k. ((update c n) ^^ k) bb p = bb p"
  proof (intro ballI allI)
    fix p k
    assume "p \<in> {lon_node n, lat_node n, alt_agl_node n, true_heading_node n, groundtrack_node n,
                 groundspeed_node n, coord_lon_node n, coord_lat_node n, direction_node n,
                 radius_node n, bank_limit_node n, L1_period_node n, override_agl_node n,
                 override_speed_node n, exit_agl_node n, exit_heading_node n, fcs_mode_node n,
                 ap_speed_node n, ap_agl_node n}"
    from other_nodes_not_written [OF n this]
    show "((update c n) ^^ k) bb p = bb p"
      by (intro update_frame_iterated) simp_all
  qed
  show ?thesis
    using frame four others update_written [of c "config_path m" bb]
    unfolding n [symmetric] by blast
qed

theorem C10_update_frame_witness:
  "update (stub_collaborators 180 250) task_nodes (tick_input ''left'' 100 270 20)
      ''/task/circle/exit-agl-ft'' = tick_input ''left'' 100 270 20 ''/task/circle/exit-agl-ft''
   \<and> update (stub_collaborators 180 250) task_nodes (tick_input ''left'' 100 270 20)
      (wp_dist_m task_nodes) = Number 250
   \<and> ((update (stub_collaborators 180 250) task_nodes) ^^ 3) (tick_input ''left'' 100 270 20)
      (radius_node task_nodes) = Number 100
   \<and> ((update (stub_collaborators 180 250) task_nodes) ^^ 3) (tick_input ''left'' 100 270 20)
      (direction_node task_nodes) = Text ''left''"
proof -
  let ?c = "stub_collaborators 180 250"
  let ?bb = "tick_input ''left'' 100 270 20"
  have n: "task_nodes = fst (bind ?c circle_task empty_blackboard)"
    by (simp add: task_nodes fst_bind config_path_circle_task)
  have leaves: "?bb (radius_node task_nodes) = Number 100"
    "?bb (direction_node task_nodes) = Text ''left''"
    by (simp_all add: tick_input_def set_direction_def set_radius_def setStringValue_def
        setDoubleValue_def task_nodes bound_nodes_def)
  have w: "''/task/circle/exit-agl-ft''
      \<notin> {target_course_deg task_nodes, ap_roll_node task_nodes, wp_dist_m task_nodes,
           wp_eta_sec task_nodes}"
    by (simp add: task_nodes bound_nodes_def)
  from C10_update_frame [OF n, of ?bb] w leaves show ?thesis
    by (simp add: tick_stub)
qed

lemma bind_paths_distinct:
  "cp @ ''/altitude-agl-ft'' \<noteq> ''/autopilot/settings/target-speed-kt''"
  "cp @ ''/altitude-agl-ft'' \<noteq> ''/autopilot/settings/target-agl-ft''"
  "cp @ ''/altitude-agl-ft'' \<noteq> ''/config/fcs/autopilot/L1-controller/bank-limit-deg''"
  "cp @ ''/altitude-agl-ft'' \<noteq> ''/config/fcs/autopilot/L1-controller/period''"
  "cp @ ''/speed-kt'' \<noteq> ''/autopilot/settings/target-speed-kt''"
  "cp @ ''/speed-kt'' \<noteq> ''/autopilot/settings/target-agl-ft''"
  "cp @ ''/speed-kt'' \<noteq> ''/config/fcs/autopilot/L1-controller/bank-limit-deg''"
  "cp @ ''/speed-kt'' \<noteq> ''/config/fcs/autopilot/L1-controller/period''"
  by (auto dest: append_eq_drop)

lemma bind_keeps_ap_settings:
  "snd (bind c m bb) ''/autopilot/settings/target-speed-kt'' =
     bb ''/autopilot/settings/target-speed-kt''"
  "snd (bind c m bb) ''/autopilot/settings/target-agl-ft'' =
     bb ''/autopilot/settings/target-agl-ft''"
  by (simp_all add: snd_bind Let_def setDoubleValue_def bind_paths_distinct [THEN not_sym])

lemma bind_writes_overrides:
  "0 < m_target_speed_kt m \<Longrightarrow>
     snd (bind c m bb) (config_path m @ ''/speed-kt'') = Number (m_target_speed_kt m)"
  "0 < m_target_agl_ft m \<Longrightarrow>
     snd (bind c m bb) (config_path m @ ''/altitude-agl-ft'') = Number (m_target_agl_ft m)"
  "m_target_speed_kt m \<le> 0 \<Longrightarrow>
     snd (bind c m bb) (config_path m @ ''/speed-kt'') = bb (config_path m @ ''/speed-kt'')"
  "m_target_agl_ft m \<le> 0 \<Longrightarrow>
     snd (bind c m bb) (config_path m @ ''/altitude-agl-ft'') =
       bb (config_path m @ ''/altitude-agl-ft'')"
  by (simp_all add: snd_bind Let_def setDoubleValue_def bind_paths_distinct)

lemma override_task_fields:
  "config_path override_task = ''/task/circle''"
  "m_target_speed_kt override_task = 50"
  "m_target_agl_ft override_task = 400"
  by (simp_all add: override_task_def new_AuraCircleMgr_def ctor_child_def
      initial_AuraCircleMgr_def stringValue_def doubleValue_def)

subsection \<open>C7: the speed and altitude overrides\<close>

text \<open>
  C7, amended. If the task is constructed with a positive \<open>speed-kt\<close> override, \<open>bind\<close>
  writes it to the leaf \<open>speed-kt\<close> under the configuration path, and a positive
  \<open>altitude-agl-ft\<close> override to the leaf \<open>altitude-agl-ft\<close> under the configuration path;
  an override that is not positive is not written. \<open>bind\<close> does not write
  \<open>/autopilot/settings/target-speed-kt\<close> or \<open>/autopilot/settings/target-agl-ft\<close>: both hold
  after \<open>bind\<close> what they held before. No tick of \<open>update\<close> writes either of them.
\<close>

theorem C7_overrides_at_bind:
  assumes "n = fst (bind c m bb)"
  shows "ap_speed_node n = ''/autopilot/settings/target-speed-kt''
       \<and> ap_agl_node n = ''/autopilot/settings/target-agl-ft''
       \<and> override_speed_node n = config_path m @ ''/speed-kt''
       \<and> override_agl_node n = config_path m @ ''/altitude-agl-ft''
       \<and> snd (bind c m bb) (ap_speed_node n) = bb (ap_speed_node n)
       \<and> snd (bind c m bb) (ap_agl_node n) = bb (ap_agl_node n)
       \<and> (0 < m_target_speed_kt m \<longrightarrow>
            getDoubleValue c (snd (bind c m bb)) (override_speed_node n) = m_target_speed_kt m)
       \<and> (0 < m_target_agl_ft m \<longrightarrow>
            getDoubleValue c (snd (bind c m bb)) (override_agl_node n) = m_target_agl_ft m)
       \<and> (m_target_speed_kt m \<le> 0 \<longrightarrow>
            snd (bind c m bb) (override_speed_node n) = bb (override_speed_node n))
       \<and> (m_target_agl_ft m \<le> 0 \<longrightarrow>
            snd (bind c m bb) (override_agl_node n) = bb (override_agl_node n))
       \<and> (\<forall>k bb'. ((update c n) ^^ k) bb' (ap_speed_node n) = bb' (ap_speed_node n)
                 \<and> ((update c n) ^^ k) bb' (ap_agl_node n) = bb' (ap_agl_node n))"
proof -
  have n: "n = bound_nodes (config_path m)"
    using assms by (simp add: fst_bind)
  have paths: "ap_speed_node n = ''/autopilot/settings/target-speed-kt''"
    "ap_agl_node n = ''/autopilot/settings/target-agl-ft''"
    "override_speed_node n = config_path m @ ''/speed-kt''"
    "override_agl_node n = config_path m @ ''/altitude-agl-ft''"
    by (simp_all add: n bound_nodes_def)
  have ticks: "((update c n) ^^ k) bb' (ap_speed_node n) = bb' (ap_speed_node n)"
    "((update c n) ^^ k) bb' (ap_agl_node n) = bb' (ap_agl_node n)" for k bb'
    by (rule update_frame_iterated; simp add: n bound_nodes_def)+
  show ?thesis
    using ticks
    by (simp add: paths bind_keeps_ap_settings bind_writes_overrides getDoubleValue_def
        doubleValue_def)
qed

theorem C7_overrides_at_bind_witness:
  "getDoubleValue (stub_collaborators 0 0)
     (snd (bind (stub_collaborators 0 0) override_task empty_blackboard))
     ''/task/circle/speed-kt'' = 50
   \<and> getDoubleValue (stub_collaborators 0 0)
     (snd (bind (stub_collaborators 0 0) override_task empty_blackboard))
     ''/task/circle/altitude-agl-ft'' = 400
   \<and> snd (bind (stub_collaborators 0 0) circle_task empty_blackboard)
     ''/task/circle/speed-kt'' = empty_blackboard ''/task/circle/speed-kt''
   \<and> snd (bind (stub_collaborators 0 0) circle_task empty_blackboard)
     ''/task/circle/altitude-agl-ft'' = empty_blackboard ''/task/circle/altitude-agl-ft''
   \<and> snd (bind (stub_collaborators 0 0) override_task empty_blackboard)
     ''/autopilot/settings/target-speed-kt'' = empty_blackboard ''/autopilot/settings/target-speed-kt''"
  using C7_overrides_at_bind [OF refl, of "stub_collaborators 0 0" override_task empty_blackboard]
    C7_overrides_at_bind [OF refl, of "stub_collaborators 0 0" circle_task empty_blackboard]
  by (simp add: override_task_fields m_circle_task config_path_circle_task fst_bind
      bound_nodes_def)

text \<open>
  The task of \<open>override_task\<close> (speed override 50 kt, altitude override 400 ft) bound on
  the empty tree: after \<open>bind\<close> the leaf \<open>/autopilot/settings/target-speed-kt\<close> reads 0 and
  not 50, and \<open>/autopilot/settings/target-agl-ft\<close> reads 0 and not 400; the overrides are
  in \<open>/task/circle/speed-kt\<close> and \<open>/task/circle/altitude-agl-ft\<close>.
\<close>

theorem C7_ap_settings_counterexample:
  "m_target_speed_kt override_task = 50
   \<and> m_target_agl_ft override_task = 400
   \<and> getDoubleValue (stub_collaborators 0 0)
       (snd (bind (stub_collaborators 0 0) override_task empty_blackboard))
       ''/autopilot/settings/target-speed-kt'' = 0
   \<and> getDoubleValue (stub_collaborators 0 0)
       (snd (bind (stub_collaborators 0 0) override_task empty_blackboard))
       ''/autopilot/settings/target-agl-ft'' = 0
   \<and> getDoubleValue (stub_collaborators 0 0)
       (snd (bind (stub_collaborators 0 0) override_task empty_blackboard))
       ''/task/circle/speed-kt'' = 50
   \<and> getDoubleValue (stub_collaborators 0 0)
       (snd (bind (stub_collaborators 0 0) override_task empty_blackboard))
       ''/task/circle/altitude-agl-ft'' = 400"
  using bind_writes_overrides(1,2) [of override_task "stub_collaborators 0 0" empty_blackboard]
  by (simp add: override_task_fields bind_keeps_ap_settings getDoubleValue_def doubleValue_def
      empty_blackboard_def)

lemma tick_depends_on_reads:
  assumes "bb' (direction_node (bound_nodes cp)) = bb (direction_node (bound_nodes cp))"
    and "bb' (coord_lon_node (bound_nodes cp)) = bb (coord_lon_node (bound_nodes cp))"
    and "bb' (coord_lat_node (bound_nodes cp)) = bb (coord_lat_node (bound_nodes cp))"
    and "bb' (lon_node (bound_nodes cp)) = bb (lon_node (bound_nodes cp))"
    and "bb' (lat_node (bound_nodes cp)) = bb (lat_node (bound_nodes cp))"
    and "bb' (radius_node (bound_nodes cp)) = bb (radius_node (bound_nodes cp))"
    and "bb' (L1_period_node (bound_nodes cp)) = bb (L1_period_node (bound_nodes cp))"
    and "bb' (groundspeed_node (bound_nodes cp)) = bb (groundspeed_node (bound_nodes cp))"
    and "bb' (groundtrack_node (bound_nodes cp)) = bb (groundtrack_node (bound_nodes cp))"
    and "bb' (bank_limit_node (bound_nodes cp)) = bb (bank_limit_node (bound_nodes cp))"
  shows "fst (update_run c (bound_nodes cp) bb') = fst (update_run c (bound_nodes cp) bb)"
proof -
  let ?n = "bound_nodes cp"
  let ?T' = "fst (update_run c ?n bb')" and ?T = "fst (update_run c ?n bb)"
  have rd: "getStringValue c bb' (direction_node ?n) = getStringValue c bb (direction_node ?n)"
    "getDoubleValue c bb' (coord_lon_node ?n) = getDoubleValue c bb (coord_lon_node ?n)"
    "getDoubleValue c bb' (coord_lat_node ?n) = getDoubleValue c bb (coord_lat_node ?n)"
    "getDoubleValue c bb' (lon_node ?n) = getDoubleValue c bb (lon_node ?n)"
    "getDoubleValue c bb' (lat_node ?n) = getDoubleValue c bb (lat_node ?n)"
    "getDoubleValue c bb' (radius_node ?n) = getDoubleValue c bb (radius_node ?n)"
    "getDoubleValue c bb' (L1_period_node ?n) = getDoubleValue c bb (L1_period_node ?n)"
    "getDoubleValue c bb' (groundspeed_node ?n) = getDoubleValue c bb (groundspeed_node ?n)"
    "getDoubleValue c bb' (groundtrack_node ?n) = getDoubleValue c bb (groundtrack_node ?n)"
    "getDoubleValue c bb' (bank_limit_node ?n) = getDoubleValue c bb (bank_limit_node ?n)"
    by (simp_all only: getDoubleValue_def getStringValue_def assms)
  have d: "t_direction ?T' = t_direction ?T"
    by (simp only: tick_direction rd)
  have "(t_course_deg ?T', t_dist_m ?T') = (t_course_deg ?T, t_dist_m ?T)"
    by (simp only: tick_geodesic get_center_def rd)
  then have g: "t_course_deg ?T' = t_course_deg ?T" "t_dist_m ?T' = t_dist_m ?T"
    by simp_all
  have r: "t_radius_m ?T' = t_radius_m ?T"
    by (simp only: tick_radius rd)
  have i: "t_ideal_crs ?T' = t_ideal_crs ?T"
    by (simp only: tick_courses(1) d g)
  have t: "t_target_crs ?T' = t_target_crs ?T"
    by (simp only: tick_courses(2) [of c ?n bb'] tick_courses(2) [of c ?n bb] i d g r)
  have v: "t_gs_mps ?T' = t_gs_mps ?T" and l: "t_bank_limit_deg ?T' = t_bank_limit_deg ?T"
    by (simp_all only: tick_bound_reads rd)
  have e: "t_course_error ?T' = t_course_error ?T"
    by (simp only: tick_bound_course_error t rd)
  have a: "t_accel ?T' = t_accel ?T"
    by (simp only: tick_bound_accel [of c cp bb'] tick_bound_accel [of c cp bb] e v rd)
  have ia: "t_ideal_accel ?T' = t_ideal_accel ?T"
    by (simp only: tick_accels(1) [of c ?n bb'] tick_accels(1) [of c ?n bb] d v r)
  have ta: "t_total_accel ?T' = t_total_accel ?T"
    by (simp only: tick_accels(2) [of c ?n bb'] tick_accels(2) [of c ?n bb] ia a)
  have tb: "t_target_bank_deg ?T' = t_target_bank_deg ?T"
    by (simp only: tick_accels(3) [of c ?n bb'] tick_accels(3) [of c ?n bb] ta)
  show ?thesis
    by (rule tick.equality) (simp_all add: d g r i t v l e a ia ta tb)
qed

lemma radius_ignores_other_leaves:
  "p \<noteq> radius_node n \<Longrightarrow>
     t_radius_m (fst (update_run c n (bb(p := w)))) = t_radius_m (fst (update_run c n bb))"
  by (simp add: tick_radius getDoubleValue_def)

subsection \<open>C4: the radius and the wind\<close>

text \<open>
  C4, amended. The radius used by \<open>update\<close> is the configured \<open>radius-m\<close> floored at 10 m
  and depends on nothing else: \<open>update\<close> reads no wind estimate. Two ticks of a bound
  manager whose blackboards agree on the ten leaves \<open>update\<close> reads (direction, centre
  longitude and latitude, position longitude and latitude, radius, L1 period, ground
  speed, ground track, bank limit) compute the same radius and the same local values, and
  so the same commands, whatever any other leaf holds.
\<close>

theorem C4_radius_from_configuration_only:
  assumes "n = fst (bind c m bb0)"
    and "\<forall>p \<in> {direction_node n, coord_lon_node n, coord_lat_node n, lon_node n, lat_node n,
                radius_node n, L1_period_node n, groundspeed_node n, groundtrack_node n,
                bank_limit_node n}. bb' p = bb p"
  shows "t_radius_m (fst (update_run c n bb)) = max 10 (getDoubleValue c bb (radius_node n))
       \<and> t_radius_m (fst (update_run c n bb')) = t_radius_m (fst (update_run c n bb))
       \<and> fst (update_run c n bb') = fst (update_run c n bb)"
proof -
  have n: "n = bound_nodes (config_path m)"
    using assms(1) by (simp add: fst_bind)
  have same: "fst (update_run c n bb') = fst (update_run c n bb)"
    unfolding n using assms(2) [unfolded n] by (intro tick_depends_on_reads) simp_all
  show ?thesis
    by (simp add: same) (simp add: tick_radius max_def)
qed

theorem C4_radius_from_configuration_only_witness:
  "t_radius_m (fst (update_run (stub_collaborators 180 250) task_nodes
      (tick_input ''left'' 100 270 20))) = 100
   \<and> t_radius_m (fst (update_run (stub_collaborators 180 250) task_nodes
      ((tick_input ''left'' 100 270 20) (''/filters/wind-est/wind-speed-kt'' := Number 30)))) = 100
   \<and> fst (update_run (stub_collaborators 180 250) task_nodes
      ((tick_input ''left'' 100 270 20) (''/filters/wind-est/wind-speed-kt'' := Number 30))) =
     fst (update_run (stub_collaborators 180 250) task_nodes (tick_input ''left'' 100 270 20))"
proof -
  let ?c = "stub_collaborators 180 250"
  let ?bb = "tick_input ''left'' 100 270 20"
  have n: "task_nodes = fst (bind ?c circle_task empty_blackboard)"
    by (simp add: task_nodes fst_bind config_path_circle_task)
  have agree: "\<forall>p \<in> {direction_node task_nodes, coord_lon_node task_nodes,
      coord_lat_node task_nodes, lon_node task_nodes, lat_node task_nodes,
      radius_node task_nodes, L1_period_node task_nodes, groundspeed_node task_nodes,
      groundtrack_node task_nodes, bank_limit_node task_nodes}.
      (?bb (''/filters/wind-est/wind-speed-kt'' := Number 30)) p = ?bb p"
    by (simp add: task_nodes bound_nodes_def)
  have r: "t_radius_m (fst (update_run ?c task_nodes ?bb)) = 100"
    by (simp add: tick_radius tick_input_reads)
  show ?thesis
    using C4_radius_from_configuration_only [OF n agree] unfolding r by blast
qed

text \<open>
  The tick with radius 100 on the blackboard: whatever is written to any leaf other than
  \<open>radius-m\<close>, a wind estimate included, the radius used stays 100, the configured one.
\<close>

theorem C4_wind_counterexample:
  "\<not> (\<exists>p w. p \<noteq> radius_node task_nodes
        \<and> t_radius_m (fst (update_run (stub_collaborators 180 250) task_nodes
             ((tick_input ''left'' 100 270 20) (p := w)))) \<noteq> 100)"
proof
  assume "\<exists>p w. p \<noteq> radius_node task_nodes
        \<and> t_radius_m (fst (update_run (stub_collaborators 180 250) task_nodes
             ((tick_input ''left'' 100 270 20) (p := w)))) \<noteq> 100"
  then obtain p w where p: "p \<noteq> radius_node task_nodes"
    and r: "t_radius_m (fst (update_run (stub_collaborators 180 250) task_nodes
             ((tick_input ''left'' 100 270 20) (p := w)))) \<noteq> 100"
    by blast
  have "t_radius_m (fst (update_run (stub_collaborators 180 250) task_nodes
             ((tick_input ''left'' 100 270 20) (p := w)))) = 100"
    unfolding radius_ignores_other_leaves [OF p]
    by (simp add: tick_radius tick_input_reads)
  with r show False by simp
qed

end
